theory Spec2Isabelle
  imports Complex_Main "HOL-Library.Sublist"
begin

section \<open>Pricing engine: \<open>DatabaseService.get_product_pricing\<close>\<close>

text \<open>
  Money values are Python floats in the source. They are modelled as exact rationals:
  \<open>+\<close>, \<open>-\<close>, \<open>*\<close> are exact, and \<open>round(x, 2)\<close> is rounding to the nearest
  hundredth with ties going to the even neighbour. Quantities and stock counts are
  Python integers, modelled as \<open>int\<close>. The concrete evaluations below are on
  amounts for which the float computation gives the same values.
\<close>

type_synonym money = rat

definition round2 :: "money \<Rightarrow> money" where
  "round2 x =
     (let s = x * 100; n = \<lfloor>s\<rfloor>; r = s - of_int n
      in (if r < 1 / 2 then of_int n
          else if 1 / 2 < r then of_int (n + 1)
          else if even n then of_int n else of_int (n + 1)) / 100)"

text \<open>Python's \<open>needle in haystack\<close> on strings: a contiguous occurrence.\<close>

fun str_in :: "string \<Rightarrow> string \<Rightarrow> bool" where
  "str_in xs [] = (xs = [])"
| "str_in xs (y # ys) = (prefix xs (y # ys) \<or> str_in xs ys)"

text \<open>
  A row of the \<open>Product\<close> table, with the columns the modelled code reads or writes.
  \<open>discount\<close> is 0 where the column is empty (\<open>float(product.discount) if
  product.discount else 0\<close>), \<open>scheme\<close> is \<open>None\<close> where it is empty.
\<close>

record product =
  prod_id :: int
  warehouse_id :: int
  product_code :: string
  product_name :: string
  price_of_product :: money
  discount :: money
  scheme :: "string option"
  product_quantity :: int
  blocked_quantity :: int
  available_for_sale :: int

record pricing =
  final_price :: money
  discount_percentage :: money
  scheme_name :: "string option"
  total_amount :: money
  total_quantity :: int
  paid_quantity :: int
  free_quantity :: int
  base_price :: money
  discount_amount :: money

text \<open>\<open>Product.query.get(product_id)\<close>: the row with that primary key.\<close>

definition query_get :: "product list \<Rightarrow> int \<Rightarrow> product option" where
  "query_get db i = find (\<lambda>p. prod_id p = i) db"

text \<open>The dictionary returned when the product does not exist.\<close>

definition pricing_not_found :: "int \<Rightarrow> pricing" where
  "pricing_not_found quantity =
     \<lparr>final_price = 0, discount_percentage = 0, scheme_name = None, total_amount = 0,
      total_quantity = quantity, paid_quantity = quantity, free_quantity = 0,
      base_price = 0, discount_amount = 0\<rparr>"

text \<open>
  The \<open>except\<close> branch: base pricing as fallback. The only operation of the \<open>try\<close>
  block that raises on a well-typed row is the division by a zero base price.
\<close>

definition pricing_fallback :: "product \<Rightarrow> int \<Rightarrow> pricing" where
  "pricing_fallback p quantity =
     \<lparr>final_price = price_of_product p, discount_percentage = 0, scheme_name = None,
      total_amount = price_of_product p * of_int quantity,
      total_quantity = quantity, paid_quantity = quantity, free_quantity = 0,
      base_price = round2 (price_of_product p), discount_amount = 0\<rparr>"

text \<open>
  The scheme cascade of lines 461-522: the triple is
  \<open>(final_price, paid_quantity, free_quantity)\<close>; \<open>total_quantity\<close> is the requested
  quantity in every branch.
\<close>

definition apply_scheme :: "string option \<Rightarrow> money \<Rightarrow> int \<Rightarrow> money \<times> int \<times> int" where
  "apply_scheme sch price_after_discount quantity =
     (case sch of
        None \<Rightarrow> (price_after_discount, quantity, 0)
      | Some s \<Rightarrow>
          if s = [] then (price_after_discount, quantity, 0)
          else if str_in ''Buy 3 Get 2 Free'' s \<and> quantity \<ge> 3 then
            (let scheme_groups = quantity div 5;
                 remaining_items = quantity mod 5;
                 free_q = scheme_groups * 2;
                 paid_q = scheme_groups * 3
             in if remaining_items \<ge> 3
                then (price_after_discount, paid_q + 3, free_q + 2)
                else (price_after_discount, paid_q + remaining_items, free_q))
          else if str_in ''Buy 2 Get 1 Free'' s \<and> quantity \<ge> 2 then
            (let scheme_groups = quantity div 3;
                 remaining_items = quantity mod 3;
                 free_q = scheme_groups * 1;
                 paid_q = scheme_groups * 2
             in if remaining_items \<ge> 2
                then (price_after_discount, paid_q + remaining_items, free_q)
                else if remaining_items = 1
                then (price_after_discount, paid_q + 1, free_q)
                else (price_after_discount, paid_q, free_q))
          else if str_in ''Buy 1 Get 20% Off'' s \<and> quantity \<ge> 1 then
            (price_after_discount * (80 / 100), quantity, 0)
          else if str_in ''Buy 1 Get 15% Off'' s \<and> quantity \<ge> 1 then
            (price_after_discount * (85 / 100), quantity, 0)
          else if str_in ''Buy 2 Get 25% Off'' s \<and> quantity \<ge> 2 then
            (price_after_discount * (75 / 100), quantity, 0)
          else (price_after_discount, quantity, 0))"

text \<open>The body of \<open>get_product_pricing\<close> once the row is found.\<close>

definition pricing_of_row :: "product \<Rightarrow> int \<Rightarrow> pricing" where
  "pricing_of_row p quantity =
     (let bp = price_of_product p;
          da = discount p;
          sch = (case scheme p of None \<Rightarrow> None | Some s \<Rightarrow> if s = [] then None else Some s)
      in if da > 0 \<and> bp = 0 then pricing_fallback p quantity
         else
           let dp = (if da > 0 then (da / bp) * 100 else 0);
               price_after_discount = bp - da;
               (fp, paid_q, free_q) = apply_scheme sch price_after_discount quantity;
               amount = fp * of_int paid_q
           in \<lparr>final_price = round2 fp, discount_percentage = round2 dp,
               scheme_name = sch, total_amount = round2 amount,
               total_quantity = quantity, paid_quantity = paid_q, free_quantity = free_q,
               base_price = round2 bp, discount_amount = round2 da\<rparr>)"

definition get_product_pricing :: "product list \<Rightarrow> int \<Rightarrow> int \<Rightarrow> pricing" where
  "get_product_pricing db product_id quantity =
     (case query_get db product_id of
        None \<Rightarrow> pricing_not_found quantity
      | Some p \<Rightarrow> pricing_of_row p quantity)"

text \<open>The AI Memory Card of the sample catalogue (QB003), in warehouse 1.\<close>

definition memory_card :: product where
  "memory_card =
     \<lparr>prod_id = 3, warehouse_id = 1, product_code = ''QB003'',
      product_name = ''AI Memory Card'', price_of_product = 800, discount = 50,
      scheme = Some ''Buy 3 Get 2 Free'', product_quantity = 200, blocked_quantity = 0,
      available_for_sale = 200\<rparr>"

section \<open>Cart store: \<open>EnhancedOrderService\<close>\<close>

text \<open>
  The cart lives in the Flask session under the key \<open>'order_session'\<close>. Its stage is
  a string in the source (\<open>'idle'\<close>, \<open>'browsing'\<close>, \<open>'calculating'\<close>,
  \<open>'confirming'\<close>, \<open>'completed'\<close>, and \<open>'active'\<close> for a cart made by
  \<open>initialize_cart_session\<close>). Timestamps (\<open>added_at\<close>, \<open>last_updated\<close>) and the
  random \<open>cart_id\<close> are left out: no modelled function reads them.
\<close>

datatype stage = Idle | Browsing | Calculating | Confirming | Completed | Active

text \<open>
  A cart line. \<open>item_product_id\<close> is \<open>None\<close> for a line made by the chat handler,
  whose dictionary has no \<open>'product_id'\<close> key.
\<close>

record cart_item =
  item_product_id :: "int option"
  item_product_code :: string
  item_product_name :: string
  item_quantity :: int
  item_unit_price :: money
  item_final_price :: money
  item_discount_percentage :: money
  item_scheme_name :: "string option"
  item_total :: money

record cart =
  status :: stage
  items :: "cart_item list"
  total_cost :: money
  discount_applied :: money
  final_total :: money
  order_id :: "nat option"
  pending_confirmation :: bool

text \<open>
  The session: the cart under \<open>'order_session'\<close> if that key is present, and whether
  the key \<open>'order_code'\<close> is present (\<open>update_item_quantity\<close> tests it; no code of
  the repository ever sets it).
\<close>

record session =
  order_session :: "cart option"
  order_code :: bool

text \<open>Outcomes of the service calls: the source returns a flag and a message.\<close>

datatype outcome =
    Success
  | ProductNotFound
  | InsufficientStock
  | NoActiveCart
  | NotInCart
  | CartEmpty
  | NoLongerAvailable
  | NoValidItems
  | Raised

text \<open>The dictionary written by \<open>clear_cart\<close>, \<open>force_clear_cart\<close> and by the chat
  handler when the session has no cart yet.\<close>

definition fresh_cart :: cart where
  "fresh_cart =
     \<lparr>status = Idle, items = [], total_cost = 0, discount_applied = 0, final_total = 0,
      order_id = None, pending_confirmation = False\<rparr>"

text \<open>
  \<open>initialize_cart_session\<close> on a session without a cart. Its dictionary has a key
  \<open>'total_amount'\<close> and no \<open>'total_cost'\<close>; the only caller modelled here,
  \<open>add_item_to_cart\<close>, sets \<open>'total_cost'\<close> before anything reads it.
\<close>

definition initialize_cart_session :: cart where
  "initialize_cart_session =
     \<lparr>status = Active, items = [], total_cost = 0, discount_applied = 0, final_total = 0,
      order_id = None, pending_confirmation = False\<rparr>"

definition clear_cart :: "session \<Rightarrow> outcome \<times> session" where
  "clear_cart s = (Success, s\<lparr>order_session := Some fresh_cart\<rparr>)"

definition force_clear_cart :: "session \<Rightarrow> outcome \<times> session" where
  "force_clear_cart s = (Success, s\<lparr>order_session := Some fresh_cart\<rparr>)"

definition get_product_by_code_and_warehouse :: "product list \<Rightarrow> string \<Rightarrow> int \<Rightarrow> product option" where
  "get_product_by_code_and_warehouse db code wid =
     find (\<lambda>p. product_code p = code \<and> warehouse_id p = wid) db"

definition get_product_by_code :: "product list \<Rightarrow> string \<Rightarrow> product option" where
  "get_product_by_code db code = find (\<lambda>p. product_code p = code) db"

text \<open>The loop of \<open>_recalculate_cart_totals\<close>, one step per cart line.\<close>

definition recalculate_cart_totals :: "cart \<Rightarrow> cart" where
  "recalculate_cart_totals c =
     (let total = foldl (\<lambda>acc it. acc + item_total it) 0 (items c);
          disc = foldl (\<lambda>acc it.
                   if item_discount_percentage it > 0
                   then acc + (item_unit_price it - item_final_price it) * of_int (item_quantity it)
                   else acc) 0 (items c)
      in c\<lparr>total_cost := total, discount_applied := disc, final_total := total\<rparr>)"

text \<open>Applies \<open>f\<close> to the first element that satisfies \<open>P\<close>: the source's
  search loop with \<open>break\<close>, followed by an update in place.\<close>

fun update_first :: "('a \<Rightarrow> bool) \<Rightarrow> ('a \<Rightarrow> 'a) \<Rightarrow> 'a list \<Rightarrow> 'a list" where
  "update_first P f [] = []"
| "update_first P f (x # xs) = (if P x then f x # xs else x # update_first P f xs)"

definition add_item_to_cart ::
  "product list \<Rightarrow> string \<Rightarrow> int \<Rightarrow> int \<Rightarrow> session \<Rightarrow> outcome \<times> session" where
  "add_item_to_cart db code quantity wid s =
     (case get_product_by_code_and_warehouse db code wid of
        None \<Rightarrow> (ProductNotFound, s)
      | Some p \<Rightarrow>
          if available_for_sale p < quantity then (InsufficientStock, s)
          else
            let pricing_info = get_product_pricing db (prod_id p) quantity;
                cart_item =
                  \<lparr>item_product_id = Some (prod_id p), item_product_code = code,
                   item_product_name = product_name p, item_quantity = quantity,
                   item_unit_price = base_price pricing_info,
                   item_final_price = final_price pricing_info,
                   item_discount_percentage = discount_percentage pricing_info,
                   item_scheme_name = scheme_name pricing_info,
                   item_total = total_amount pricing_info\<rparr>;
                c = (case order_session s of None \<Rightarrow> initialize_cart_session | Some c \<Rightarrow> c);
                items' =
                  (case find (\<lambda>it. item_product_code it = code) (items c) of
                     Some existing \<Rightarrow>
                       update_first (\<lambda>it. item_product_code it = code)
                         (\<lambda>it. it\<lparr>item_quantity := item_quantity it + quantity,
                                    item_total := item_total it + total_amount pricing_info\<rparr>)
                         (items c)
                   | None \<Rightarrow> items c @ [cart_item])
            in (Success, s\<lparr>order_session := Some (recalculate_cart_totals (c\<lparr>items := items'\<rparr>))\<rparr>))"

definition remove_item_from_cart :: "string \<Rightarrow> session \<Rightarrow> outcome \<times> session" where
  "remove_item_from_cart code s =
     (case order_session s of
        None \<Rightarrow> (NoActiveCart, s)
      | Some c \<Rightarrow>
          let original_length = length (items c);
              c' = c\<lparr>items := filter (\<lambda>it. item_product_code it \<noteq> code) (items c)\<rparr>
          in if length (items c') = original_length
             then (NotInCart, s\<lparr>order_session := Some c'\<rparr>)
             else (Success, s\<lparr>order_session := Some (recalculate_cart_totals c')\<rparr>))"

text \<open>
  \<open>update_item_quantity\<close>. The guard of line 147 tests the key \<open>'order_code'\<close>.
  Reading \<open>session['order_session']\<close> when that key is absent, and reading
  \<open>item['product_id']\<close> on a line without it, raise \<open>KeyError\<close>, which the
  \<open>except\<close> clause turns into a failure message; the quantity of the line has
  already been overwritten in the second case.
\<close>

definition update_item_quantity ::
  "product list \<Rightarrow> string \<Rightarrow> int \<Rightarrow> session \<Rightarrow> outcome \<times> session" where
  "update_item_quantity db code new_quantity s =
     (if \<not> order_code s then (NoActiveCart, s)
      else case order_session s of
        None \<Rightarrow> (Raised, s)
      | Some c \<Rightarrow>
          (case find (\<lambda>it. item_product_code it = code) (items c) of
             None \<Rightarrow> (NotInCart, s)
           | Some item \<Rightarrow>
               if new_quantity \<le> 0 then remove_item_from_cart code s
               else if (case get_product_by_code db (item_product_code item) of
                          None \<Rightarrow> False
                        | Some p \<Rightarrow> available_for_sale p < new_quantity)
               then (InsufficientStock, s)
               else
                 (case item_product_id item of
                    None \<Rightarrow>
                      (Raised, s\<lparr>order_session := Some (c\<lparr>items :=
                         update_first (\<lambda>it. item_product_code it = code)
                           (\<lambda>it. it\<lparr>item_quantity := new_quantity\<rparr>) (items c)\<rparr>)\<rparr>)
                  | Some pid \<Rightarrow>
                      let pricing_info = get_product_pricing db pid new_quantity;
                          items' = update_first (\<lambda>it. item_product_code it = code)
                            (\<lambda>it. it\<lparr>item_quantity := new_quantity,
                                       item_final_price := final_price pricing_info,
                                       item_discount_percentage := discount_percentage pricing_info,
                                       item_scheme_name := scheme_name pricing_info,
                                       item_total := total_amount pricing_info\<rparr>) (items c)
                      in (Success,
                          s\<lparr>order_session := Some (recalculate_cart_totals (c\<lparr>items := items'\<rparr>))\<rparr>))))"

section \<open>Inventory and order store: \<open>DatabaseService\<close>\<close>

text \<open>
  The tables the finalizers write. The \<open>Order\<close> and \<open>OrderItem\<close> classes are not
  among the sources; a row has the columns \<open>create_order\<close> and \<open>add_order_item\<close>
  name. A new order gets the next key of the table, which also stands for the
  \<open>order_id\<close> string that the absent \<open>generate_order_id\<close> makes; until the
  finalizer writes them its total is 0 and its status \<open>Created\<close>.
\<close>

datatype order_status = Created | Confirmed

record order_item =
  oi_order_id :: nat
  oi_product_id :: int
  oi_product_code :: string
  oi_quantity :: int
  oi_unit_price :: money
  oi_total_price :: money

record order_row =
  o_id :: nat
  o_total_amount :: money
  o_status :: order_status

record database =
  products :: "product list"
  orders :: "order_row list"
  order_items :: "order_item list"

definition create_order :: "database \<Rightarrow> order_row \<times> database" where
  "create_order db =
     (let ord = \<lparr>o_id = Suc (length (orders db)), o_total_amount = 0, o_status = Created\<rparr>
      in (ord, db\<lparr>orders := orders db @ [ord]\<rparr>))"

definition add_order_item ::
  "database \<Rightarrow> nat \<Rightarrow> int \<Rightarrow> string \<Rightarrow> int \<Rightarrow> money \<Rightarrow> money option \<Rightarrow> order_item \<times> database" where
  "add_order_item db oid pid code quantity unit_price total_price =
     (let tp = (case total_price of None \<Rightarrow> of_int quantity * unit_price | Some t \<Rightarrow> t);
          oi = \<lparr>oi_order_id = oid, oi_product_id = pid, oi_product_code = code,
                oi_quantity = quantity, oi_unit_price = unit_price, oi_total_price = tp\<rparr>
      in (oi, db\<lparr>order_items := order_items db @ [oi]\<rparr>))"

text \<open>\<open>order.total_amount = total_amount; order.status = 'confirmed'\<close>.\<close>

definition confirm_order :: "nat \<Rightarrow> money \<Rightarrow> database \<Rightarrow> database" where
  "confirm_order oid amount db =
     db\<lparr>orders := map (\<lambda>r. if o_id r = oid
                              then r\<lparr>o_total_amount := amount, o_status := Confirmed\<rparr>
                              else r) (orders db)\<rparr>"

text \<open>
  \<open>update_product_quantities\<close>, the second definition of that name in the class
  (line 572), which replaces the first. Its argument is a dictionary, given here as the
  list of its entries in iteration order. \<open>Product.update_available_quantity\<close> is not
  among the sources: it is the parameter \<open>uaq\<close>, applied to the row after the
  decrement. One step of the loop:
\<close>

definition decrement_stock :: "(product \<Rightarrow> product) \<Rightarrow> string \<times> int \<Rightarrow> product list \<Rightarrow> product list" where
  "decrement_stock uaq line ps =
     (case get_product_by_code ps (fst line) of
        None \<Rightarrow> ps
      | Some p \<Rightarrow>
          if available_for_sale p \<ge> snd line
          then update_first (\<lambda>r. product_code r = fst line)
                 (\<lambda>r. uaq (r\<lparr>available_for_sale := available_for_sale r - snd line\<rparr>)) ps
          else ps)"

definition update_product_quantities ::
  "(product \<Rightarrow> product) \<Rightarrow> (string \<times> int) list \<Rightarrow> database \<Rightarrow> bool \<times> database" where
  "update_product_quantities uaq product_quantities db =
     (True, db\<lparr>products := fold (decrement_stock uaq) product_quantities (products db)\<rparr>)"


section \<open>Order finalizers\<close>

subsection \<open>\<open>OrderService.create_order_from_cart\<close>\<close>

text \<open>
  A cart line handed to a finalizer is a dictionary with \<open>'product_code'\<close> and
  \<open>'quantity'\<close>: a pair here. A missing key reads as the empty code or quantity 0
  (\<open>item.get('quantity', 0)\<close>), which the first test of the loop skips like them.
\<close>

record validated_item =
  v_product_id :: int
  v_product_code :: string
  v_quantity :: int
  v_unit_price :: money

fun validate_cart_items :: "product list \<Rightarrow> (string \<times> int) list \<Rightarrow> int \<Rightarrow> validated_item list" where
  "validate_cart_items ps [] wid = []"
| "validate_cart_items ps ((code, quantity) # rest) wid =
     (if code = [] \<or> quantity \<le> 0 then validate_cart_items ps rest wid
      else case get_product_by_code_and_warehouse ps code wid of
        None \<Rightarrow> validate_cart_items ps rest wid
      | Some p \<Rightarrow>
          if available_for_sale p < quantity then validate_cart_items ps rest wid
          else \<lparr>v_product_id = prod_id p, v_product_code = code, v_quantity = quantity,
                v_unit_price = price_of_product p\<rparr> # validate_cart_items ps rest wid)"

text \<open>The loop over the validated lines, with the running amount and the database.\<close>

fun add_validated_items ::
  "(product \<Rightarrow> product) \<Rightarrow> nat \<Rightarrow> validated_item list \<Rightarrow> money \<times> database \<Rightarrow> money \<times> database" where
  "add_validated_items uaq oid [] acc = acc"
| "add_validated_items uaq oid (item # rest) (amount, db) =
     (let (oi, db1) = add_order_item db oid (v_product_id item) (v_product_code item)
                        (v_quantity item) (v_unit_price item) None;
          (ok, db2) = update_product_quantities uaq [(v_product_code item, v_quantity item)] db1
      in add_validated_items uaq oid rest (amount + oi_total_price oi, db2))"

definition order_service_create_order_from_cart ::
  "(product \<Rightarrow> product) \<Rightarrow> database \<Rightarrow> (string \<times> int) list \<Rightarrow> int \<Rightarrow> outcome \<times> nat option \<times> database" where
  "order_service_create_order_from_cart uaq db cart_items wid =
     (let validated_items = validate_cart_items (products db) cart_items wid
      in if validated_items = [] then (NoValidItems, None, db)
         else
           let (ord, db1) = create_order db;
               (amount, db2) = add_validated_items uaq (o_id ord) validated_items (0, db1)
           in (Success, Some (o_id ord), confirm_order (o_id ord) amount db2))"

subsection \<open>\<open>EnhancedOrderService.create_order_from_cart\<close> and \<open>confirm_cart\<close>\<close>

text \<open>The validation loop shared by both: the first line that fails decides.\<close>

fun check_availability :: "product list \<Rightarrow> (string \<times> int) list \<Rightarrow> int \<Rightarrow> outcome" where
  "check_availability ps [] wid = Success"
| "check_availability ps ((code, quantity) # rest) wid =
     (case get_product_by_code_and_warehouse ps code wid of
        None \<Rightarrow> NoLongerAvailable
      | Some p \<Rightarrow>
          if available_for_sale p < quantity then InsufficientStock
          else check_availability ps rest wid)"

fun add_priced_items ::
  "(product \<Rightarrow> product) \<Rightarrow> nat \<Rightarrow> (string \<times> int) list \<Rightarrow> money \<times> database \<Rightarrow> money \<times> database" where
  "add_priced_items uaq oid [] acc = acc"
| "add_priced_items uaq oid ((code, quantity) # rest) (amount, db) =
     (case get_product_by_code (products db) code of
        None \<Rightarrow> add_priced_items uaq oid rest (amount, db)
      | Some p \<Rightarrow>
          let pricing_info = get_product_pricing (products db) (prod_id p) quantity;
              (oi, db1) = add_order_item db oid (prod_id p) code quantity
                            (final_price pricing_info) (Some (total_amount pricing_info));
              (ok, db2) = update_product_quantities uaq [(code, quantity)] db1
          in add_priced_items uaq oid rest (amount + total_amount pricing_info, db2))"

definition enhanced_create_order_from_cart ::
  "(product \<Rightarrow> product) \<Rightarrow> database \<Rightarrow> (string \<times> int) list \<Rightarrow> int \<Rightarrow> outcome \<times> nat option \<times> database" where
  "enhanced_create_order_from_cart uaq db cart_items wid =
     (if cart_items = [] then (CartEmpty, None, db)
      else case check_availability (products db) cart_items wid of
        Success \<Rightarrow>
          let (ord, db1) = create_order db;
              (amount, db2) = add_priced_items uaq (o_id ord) cart_items (0, db1)
          in (Success, Some (o_id ord), confirm_order (o_id ord) amount db2)
      | failure \<Rightarrow> (failure, None, db))"

text \<open>
  The second loop of \<open>confirm_cart\<close> reads \<open>item['product_id']\<close> and
  \<open>item['unit_price']\<close> from the cart line. A line without \<open>'product_id'\<close> raises
  \<open>KeyError\<close>: the flag is then \<open>False\<close>, and what was committed before stays.
\<close>

fun add_cart_items ::
  "(product \<Rightarrow> product) \<Rightarrow> nat \<Rightarrow> cart_item list \<Rightarrow> money \<times> database \<Rightarrow> bool \<times> money \<times> database" where
  "add_cart_items uaq oid [] (amount, db) = (True, amount, db)"
| "add_cart_items uaq oid (item # rest) (amount, db) =
     (case item_product_id item of
        None \<Rightarrow> (False, amount, db)
      | Some pid \<Rightarrow>
          let (oi, db1) = add_order_item db oid pid (item_product_code item)
                            (item_quantity item) (item_unit_price item) None;
              (ok, db2) = update_product_quantities uaq
                            [(item_product_code item, item_quantity item)] db1
          in add_cart_items uaq oid rest (amount + oi_total_price oi, db2))"

definition confirm_cart ::
  "(product \<Rightarrow> product) \<Rightarrow> database \<Rightarrow> int \<Rightarrow> session \<Rightarrow> outcome \<times> database \<times> session" where
  "confirm_cart uaq db wid s =
     (case order_session s of
        None \<Rightarrow> (NoActiveCart, db, s)
      | Some c \<Rightarrow>
          if items c = [] then (CartEmpty, db, s)
          else case check_availability (products db)
                      (map (\<lambda>it. (item_product_code it, item_quantity it)) (items c)) wid of
            Success \<Rightarrow>
              let (ord, db1) = create_order db;
                  (ok, amount, db2) = add_cart_items uaq (o_id ord) (items c) (0, db1)
              in if ok
                 then (Success, confirm_order (o_id ord) amount db2,
                       s\<lparr>order_session := Some (c\<lparr>status := Completed,
                            order_id := Some (o_id ord), pending_confirmation := False\<rparr>)\<rparr>)
                 else (Raised, db2, s)
          | failure \<Rightarrow> (failure, db, s))"

subsection \<open>What a finalizer charges\<close>

text \<open>
  Two rows make the same offer when they agree on the columns pricing reads. The
  absent \<open>update_available_quantity\<close> is expected to touch stock columns only:
  \<open>keeps_offer\<close> says so of a stand-in.
\<close>

definition same_offer :: "product \<Rightarrow> product \<Rightarrow> bool" where
  "same_offer a b =
     (prod_id a = prod_id b \<and> product_code a = product_code b
      \<and> price_of_product a = price_of_product b \<and> discount a = discount b
      \<and> scheme a = scheme b)"

definition keeps_offer :: "(product \<Rightarrow> product) \<Rightarrow> bool" where
  "keeps_offer uaq = (\<forall>p. same_offer p (uaq p))"

text \<open>
  The order line for a cart line when it is priced from the catalogue \<open>ps\<close> alone: the
  first product with the code, at the final price and total \<open>get_product_pricing\<close>
  gives for the quantity; no line when the code is unknown.
\<close>

definition priced_line :: "product list \<Rightarrow> nat \<Rightarrow> string \<times> int \<Rightarrow> order_item list" where
  "priced_line ps oid line =
     (case get_product_by_code ps (fst line) of
        None \<Rightarrow> []
      | Some p \<Rightarrow>
          [\<lparr>oi_order_id = oid, oi_product_id = prod_id p, oi_product_code = fst line,
            oi_quantity = snd line,
            oi_unit_price = final_price (get_product_pricing ps (prod_id p) (snd line)),
            oi_total_price = total_amount (get_product_pricing ps (prod_id p) (snd line))\<rparr>])"

section \<open>Chat handler: the cart branches of \<open>process_message\<close>\<close>

text \<open>
  Strings are byte lists; \<open>lower\<close>, \<open>upper\<close> and \<open>split\<close> are Python's on ASCII
  text.
\<close>

definition lower_char :: "char \<Rightarrow> char" where
  "lower_char c =
     (case map_of (zip ''ABCDEFGHIJKLMNOPQRSTUVWXYZ'' ''abcdefghijklmnopqrstuvwxyz'') c of
        Some d \<Rightarrow> d | None \<Rightarrow> c)"


definition lower :: "string \<Rightarrow> string" where
  "lower s = map lower_char s"


definition is_space :: "char \<Rightarrow> bool" where
  "is_space c =
     (c \<in> set [CHR '' '', CHR 0x09, CHR 0x0A, CHR 0x0B, CHR 0x0C, CHR 0x0D,
                 CHR 0x1C, CHR 0x1D, CHR 0x1E, CHR 0x1F])"

fun split_from :: "string \<Rightarrow> string \<Rightarrow> string list" where
  "split_from cur [] = (if cur = [] then [] else [cur])"
| "split_from cur (c # cs) =
     (if is_space c
      then (if cur = [] then split_from [] cs else cur # split_from [] cs)
      else split_from (cur @ [c]) cs)"

definition split :: "string \<Rightarrow> string list" where
  "split s = split_from [] s"

text \<open>
  Product matching of the add branch (lines 296-314): exact match on name or code
  first, then the first product that matches partially.
\<close>

definition find_product :: "product list \<Rightarrow> string \<Rightarrow> product option" where
  "find_product ps name =
     (let product_name_lower = lower name
      in case find (\<lambda>p. product_name_lower = lower (product_name p)
                          \<or> product_name_lower = lower (product_code p)) ps of
           Some p \<Rightarrow> Some p
         | None \<Rightarrow>
             find (\<lambda>p. str_in product_name_lower (lower (product_name p))
                        \<or> str_in (lower (product_code p)) product_name_lower
                        \<or> list_ex (\<lambda>word. str_in word (lower (product_name p)))
                             (filter (\<lambda>word. length word > 2) (split product_name_lower))) ps)"

definition get_products_by_warehouse :: "product list \<Rightarrow> int \<Rightarrow> product list" where
  "get_products_by_warehouse db wid = filter (\<lambda>p. warehouse_id p = wid) db"

datatype response =
    AddedToCart
  | AddClarification
  | RemovedFromCart
  | CartCleared
  | RemoveNotFound
  | OrderPlaced nat
  | OrderFailed outcome

text \<open>
  The add branch (lines 261-439). The regular-expression cascade of lines 275-294 is
  library code: its result is the argument \<open>m\<close>, the quantity and the stripped product
  text of the first pattern that matches the lower-cased message, \<open>None\<close> when no
  pattern matches.
\<close>

definition chat_add ::
  "product list \<Rightarrow> int \<Rightarrow> (int \<times> string) option \<Rightarrow> cart \<Rightarrow> response \<times> cart" where
  "chat_add db wid m c =
     (let c1 = (if status c = Confirming \<or> status c = Calculating then c
                else c\<lparr>status := Confirming, pending_confirmation := True\<rparr>);
          ps = get_products_by_warehouse db wid
      in case m of
           None \<Rightarrow> (AddClarification, c1)
         | Some (quantity, name) \<Rightarrow>
             (case find_product ps name of
                None \<Rightarrow> (AddClarification, c1)
              | Some p \<Rightarrow>
                  let pricing_info = get_product_pricing db (prod_id p) quantity;
                      items' =
                        (case find (\<lambda>it. item_product_code it = product_code p) (items c1) of
                           Some existing \<Rightarrow>
                             update_first (\<lambda>it. item_product_code it = product_code p)
                               (\<lambda>it. it\<lparr>item_quantity := item_quantity it + quantity,
                                          item_total := item_total it + total_amount pricing_info\<rparr>)
                               (items c1)
                         | None \<Rightarrow>
                             items c1 @
                               [\<lparr>item_product_id = None, item_product_code = product_code p,
                                 item_product_name = product_name p, item_quantity = quantity,
                                 item_unit_price = base_price pricing_info,
                                 item_final_price = final_price pricing_info,
                                 item_discount_percentage = discount_percentage pricing_info,
                                 item_scheme_name = scheme_name pricing_info,
                                 item_total = total_amount pricing_info\<rparr>])
                  in (AddedToCart,
                      c1\<lparr>items := items',
                         total_cost := total_cost c1 + total_amount pricing_info,
                         final_total := final_total c1 + total_amount pricing_info\<rparr>)))"


text \<open>
  The finalize branch that runs (lines 682-759): taken for a finalizing message when
  the cart has lines and is not \<open>completed\<close>. The later branch of line 1134 has the
  same condition and is never reached.
\<close>

definition chat_finalize ::
  "(product \<Rightarrow> product) \<Rightarrow> database \<Rightarrow> int \<Rightarrow> cart \<Rightarrow> response \<times> database \<times> cart" where
  "chat_finalize uaq db wid c =
     (let cart_items = map (\<lambda>it. (item_product_code it, item_quantity it)) (items c)
      in case enhanced_create_order_from_cart uaq db cart_items wid of
           (res, Some oid, db') \<Rightarrow> (OrderPlaced oid, db', fresh_cart)
         | (res, None, db') \<Rightarrow> (OrderFailed res, db', c))"

text \<open>
  The cart a handler works on: \<open>process_message\<close> and \<open>update_cart\<close> put the
  fresh dictionary in place when the session has no cart.
\<close>

definition current_cart :: "session \<Rightarrow> cart" where
  "current_cart s = (case order_session s of None \<Rightarrow> fresh_cart | Some c \<Rightarrow> c)"




section \<open>Sequences of cart mutations\<close>






section \<open>Sample data\<close>

text \<open>Rows of the sample catalogue (\<open>initialize_sample_products\<close>), in warehouse 1.\<close>

definition quantum_processor :: product where
  "quantum_processor =
     \<lparr>prod_id = 1, warehouse_id = 1, product_code = ''QB001'',
      product_name = ''Quantum Processor'', price_of_product = 2500, discount = 150,
      scheme = Some ''Buy 2 Get 1 Free'', product_quantity = 100, blocked_quantity = 0,
      available_for_sale = 100\<rparr>"

definition catalogue :: "product list" where
  "catalogue = [quantum_processor, memory_card]"

definition new_session :: session where
  "new_session = \<lparr>order_session = None, order_code = False\<rparr>"

text \<open>The lines of the session's cart; none when the session has no cart.\<close>

definition cart_lines :: "session \<Rightarrow> cart_item list" where
  "cart_lines s = (case order_session s of None \<Rightarrow> [] | Some c \<Rightarrow> items c)"

definition sample_db :: database where
  "sample_db = \<lparr>products = catalogue, orders = [], order_items = []\<rparr>"

text \<open>A session whose cart holds two Quantum Processors, put there through the cart API.\<close>

definition two_processors :: session where
  "two_processors = snd (add_item_to_cart catalogue ''QB001'' 2 1 new_session)"

text \<open>A cart built in the chat: two Quantum Processors added, then one more.\<close>

definition three_processors :: cart where
  "three_processors =
     snd (chat_add catalogue 1 (Some (1, ''quantum processor''))
            (snd (chat_add catalogue 1 (Some (2, ''quantum processor'')) fresh_cart)))"

definition chat_session :: session where
  "chat_session = \<lparr>order_session = Some three_processors, order_code = False\<rparr>"

text \<open>
  That session and the database after \<open>confirm_cart\<close> has turned the cart into an
  order. The stand-in for \<open>update_available_quantity\<close> leaves the row as it is.
\<close>

definition confirmed_db :: database where
  "confirmed_db = fst (snd (confirm_cart (\<lambda>p. p) sample_db 1 two_processors))"

definition confirmed_session :: session where
  "confirmed_session = snd (snd (confirm_cart (\<lambda>p. p) sample_db 1 two_processors))"

subsection \<open>Facts about the pricing engine\<close>

lemma round2_of_int: "round2 (of_int n) = of_int n"
proof -
  have "\<lfloor>(of_int n :: rat) * 100\<rfloor> = n * 100"
    by (metis floor_of_int of_int_mult of_int_numeral)
  then show ?thesis by (simp add: round2_def Let_def)
qed

lemma str_in_refl: "str_in s s"
  by (cases s) simp_all

lemma apply_scheme_buy2_get1:
  assumes "quantity \<ge> 2"
  shows "apply_scheme (Some ''Buy 2 Get 1 Free'') pad quantity
           = (pad, 2 * (quantity div 3) + quantity mod 3, quantity div 3)"
proof -
  have no3: "\<not> str_in ''Buy 3 Get 2 Free'' ''Buy 2 Get 1 Free''" by simp
  have m: "quantity mod 3 = 0 \<or> quantity mod 3 = 1 \<or> quantity mod 3 = 2" by presburger
  from m assms no3 show ?thesis
    by (auto simp: apply_scheme_def Let_def str_in_refl)
qed

lemma buy2_get1_parts_sum:
  assumes "quantity \<ge> 2"
    and "apply_scheme (Some ''Buy 2 Get 1 Free'') pad quantity = (fp, paid_q, free_q)"
  shows "paid_q + free_q = quantity"
proof -
  from assms have "paid_q = 2 * (quantity div 3) + quantity mod 3" "free_q = quantity div 3"
    by (simp_all add: apply_scheme_buy2_get1)
  then show ?thesis by presburger
qed

lemma apply_scheme_buy3_get2:
  assumes "quantity \<ge> 3"
  shows "apply_scheme (Some ''Buy 3 Get 2 Free'') pad quantity
           = (if quantity mod 5 \<ge> 3
              then (pad, 3 * (quantity div 5) + 3, 2 * (quantity div 5) + 2)
              else (pad, 3 * (quantity div 5) + quantity mod 5, 2 * (quantity div 5)))"
  using assms by (simp add: apply_scheme_def Let_def str_in_refl)

lemma buy3_get2_parts_sum:
  assumes "quantity \<ge> 3"
    and "apply_scheme (Some ''Buy 3 Get 2 Free'') pad quantity = (fp, paid_q, free_q)"
  shows "paid_q + free_q = (if quantity mod 5 \<ge> 3 then 5 * (quantity div 5) + 5 else quantity)"
proof (cases "quantity mod 5 \<ge> 3")
  case True
  with assms have "paid_q = 3 * (quantity div 5) + 3" "free_q = 2 * (quantity div 5) + 2"
    by (simp_all add: apply_scheme_buy3_get2)
  with True show ?thesis by simp
next
  case False
  with assms have "paid_q = 3 * (quantity div 5) + quantity mod 5" "free_q = 2 * (quantity div 5)"
    by (simp_all add: apply_scheme_buy3_get2)
  with False show ?thesis by presburger
qed

text \<open>Eight units under 'Buy 3 Get 2 Free': six paid and four free, ten in all.\<close>

lemma get_product_pricing_buy3_get2_at_8:
  "paid_quantity (get_product_pricing [memory_card] 3 8) = 6
   \<and> free_quantity (get_product_pricing [memory_card] 3 8) = 4
   \<and> total_amount (get_product_pricing [memory_card] 3 8) = 4500"
  by code_simp

text \<open>
  Claim C1. For a buy-x-get-y-free scheme and a quantity at or above the threshold,
  \<open>paid_quantity + free_quantity\<close> is the requested quantity. The code breaks this for
  'Buy 3 Get 2 Free': three AI Memory Cards are priced as 3 paid plus 2 free, five units
  for a requested (and reported \<open>total_quantity\<close>) of three.
\<close>

theorem get_product_pricing_buy3_get2_at_3:
  "paid_quantity (get_product_pricing [memory_card] 3 3) = 3
   \<and> free_quantity (get_product_pricing [memory_card] 3 3) = 2
   \<and> total_quantity (get_product_pricing [memory_card] 3 3) = 3
   \<and> paid_quantity (get_product_pricing [memory_card] 3 3)
       + free_quantity (get_product_pricing [memory_card] 3 3) \<noteq> 3"
  by (simp add: get_product_pricing_def pricing_of_row_def query_get_def memory_card_def
      apply_scheme_def Let_def)

subsection \<open>The cart invariant\<close>




















subsection \<open>Adding to a line that exists\<close>

lemma find_Some_sat: "find P xs = Some y \<Longrightarrow> P y"
  by (induction xs) (auto split: if_splits)

lemma find_update_first:
  "find P xs = Some y \<Longrightarrow> P (f y) \<Longrightarrow> find P (update_first P f xs) = Some (f y)"
  by (induction xs) (auto split: if_splits)





text \<open>The add branch of the chat handler prices an existing line the same way.\<close>

lemma chat_add_existing_line:
  assumes "find_product (get_products_by_warehouse db wid) name = Some p"
    and "find (\<lambda>it. item_product_code it = product_code p) (items c) = Some line"
  shows "fst (chat_add db wid (Some (q2, name)) c) = AddedToCart
         \<and> find (\<lambda>it. item_product_code it = product_code p) (items (snd (chat_add db wid (Some (q2, name)) c)))
             = Some (line\<lparr>item_quantity := item_quantity line + q2,
                            item_total := item_total line
                              + total_amount (get_product_pricing db (prod_id p) q2)\<rparr>)"
proof -
  from assms(2) have code: "item_product_code line = product_code p"
    by (rule find_Some_sat)
  have "find (\<lambda>it. item_product_code it = product_code p)
          (update_first (\<lambda>it. item_product_code it = product_code p)
             (\<lambda>it. it\<lparr>item_quantity := item_quantity it + q2,
                        item_total := item_total it + total_amount (get_product_pricing db (prod_id p) q2)\<rparr>)
             (items c))
        = Some (line\<lparr>item_quantity := item_quantity line + q2,
                       item_total := item_total line + total_amount (get_product_pricing db (prod_id p) q2)\<rparr>)"
    using assms(2) code by (intro find_update_first) simp_all
  with assms show ?thesis
    by (auto simp: chat_add_def Let_def)
qed

subsection \<open>Add followed by remove\<close>

lemma find_None_filter: "find P xs = None \<Longrightarrow> filter (\<lambda>x. \<not> P x) xs = xs"
  by (induction xs) (auto split: if_splits)

lemma recalculate_items_only:
  "recalculate_cart_totals ((recalculate_cart_totals (c\<lparr>items := xs\<rparr>))\<lparr>items := ys\<rparr>)
     = recalculate_cart_totals (c\<lparr>items := ys\<rparr>)"
  by (simp add: recalculate_cart_totals_def Let_def)

text \<open>
  Claim C9, as stated, fails for a cart that already has a line for the product: the
  add merges into that line and the remove deletes the whole line. It also fails for a
  cart whose totals were not derived from its lines: the cart built in the chat records
  no \<open>discount_applied\<close>, and the add and remove of another product leave 450 there.
\<close>

theorem add_then_remove_counterexample:
  "cart_lines two_processors \<noteq> []
   \<and> fst (add_item_to_cart catalogue ''QB001'' 1 1 two_processors) = Success
   \<and> fst (remove_item_from_cart ''QB001'' (snd (add_item_to_cart catalogue ''QB001'' 1 1 two_processors))) = Success
   \<and> cart_lines (snd (remove_item_from_cart ''QB001''
        (snd (add_item_to_cart catalogue ''QB001'' 1 1 two_processors)))) = []
   \<and> snd (remove_item_from_cart ''QB001''
        (snd (add_item_to_cart catalogue ''QB001'' 1 1 two_processors))) \<noteq> two_processors
   \<and> map item_product_code (cart_lines chat_session) = [''QB001'']
   \<and> discount_applied (current_cart chat_session) = 0
   \<and> fst (add_item_to_cart catalogue ''QB003'' 1 1 chat_session) = Success
   \<and> fst (remove_item_from_cart ''QB003'' (snd (add_item_to_cart catalogue ''QB003'' 1 1 chat_session))) = Success
   \<and> discount_applied (current_cart (snd (remove_item_from_cart ''QB003''
        (snd (add_item_to_cart catalogue ''QB003'' 1 1 chat_session))))) = 450
   \<and> snd (remove_item_from_cart ''QB003''
        (snd (add_item_to_cart catalogue ''QB003'' 1 1 chat_session))) \<noteq> chat_session"
  by code_simp

text \<open>
  Claim C9, amended. For a cart that has no line for the product code and whose totals
  are the ones \<open>_recalculate_cart_totals\<close> derives from its lines (the fresh cart,
  and the cart after any successful call of the cart API), a successful
  \<open>add_item_to_cart\<close> followed by \<open>remove_item_from_cart\<close> of the same code
  succeeds and gives back exactly the session it started from.
\<close>

theorem add_then_remove_restores_cart:
  assumes "order_session s = Some c"
    and "find (\<lambda>it. item_product_code it = code) (items c) = None"
    and "recalculate_cart_totals c = c"
    and "add_item_to_cart db code q wid s = (Success, s1)"
  shows "remove_item_from_cart code s1 = (Success, s)"
proof -
  from assms(4) obtain p where p: "get_product_by_code_and_warehouse db code wid = Some p"
    by (auto simp: add_item_to_cart_def split: option.splits)
  define new_line where "new_line =
     \<lparr>item_product_id = Some (prod_id p), item_product_code = code,
      item_product_name = product_name p, item_quantity = q,
      item_unit_price = base_price (get_product_pricing db (prod_id p) q),
      item_final_price = final_price (get_product_pricing db (prod_id p) q),
      item_discount_percentage = discount_percentage (get_product_pricing db (prod_id p) q),
      item_scheme_name = scheme_name (get_product_pricing db (prod_id p) q),
      item_total = total_amount (get_product_pricing db (prod_id p) q)\<rparr>"
  from assms p have s1: "s1 = s\<lparr>order_session :=
       Some (recalculate_cart_totals (c\<lparr>items := items c @ [new_line]\<rparr>))\<rparr>"
    by (auto simp: add_item_to_cart_def Let_def new_line_def split: if_splits)
  have new_code: "item_product_code new_line = code"
    by (simp add: new_line_def)
  have kept: "filter (\<lambda>it. item_product_code it \<noteq> code) (items c) = items c"
    using find_None_filter [OF assms(2)] by simp
  have "recalculate_cart_totals (c\<lparr>items := items c\<rparr>) = c"
    using assms(3) by simp
  then have restored: "recalculate_cart_totals
       ((recalculate_cart_totals (c\<lparr>items := items c @ [new_line]\<rparr>))\<lparr>items := items c\<rparr>) = c"
    by (simp only: recalculate_items_only)
  have items1: "items (recalculate_cart_totals (c\<lparr>items := items c @ [new_line]\<rparr>))
                  = items c @ [new_line]"
    by (simp add: recalculate_cart_totals_def Let_def)
  from assms(1) have same: "s\<lparr>order_session := Some c\<rparr> = s" by simp
  show ?thesis
    unfolding s1 remove_item_from_cart_def
    by (simp add: Let_def items1 kept new_code restored same)
qed

theorem add_then_remove_restores_cart_witness:
  "order_session two_processors = Some (the (order_session two_processors))
   \<and> find (\<lambda>it. item_product_code it = ''QB003'') (items (the (order_session two_processors))) = None
   \<and> recalculate_cart_totals (the (order_session two_processors)) = the (order_session two_processors)
   \<and> add_item_to_cart catalogue ''QB003'' 4 1 two_processors
       = (Success, snd (add_item_to_cart catalogue ''QB003'' 4 1 two_processors))
   \<and> remove_item_from_cart ''QB003'' (snd (add_item_to_cart catalogue ''QB003'' 4 1 two_processors))
       = (Success, two_processors)"
proof -
  have h1: "order_session two_processors = Some (the (order_session two_processors))"
    by code_simp
  have h2: "find (\<lambda>it. item_product_code it = ''QB003'') (items (the (order_session two_processors))) = None"
    by code_simp
  have h3: "recalculate_cart_totals (the (order_session two_processors)) = the (order_session two_processors)"
    by code_simp
  have h4: "add_item_to_cart catalogue ''QB003'' 4 1 two_processors
       = (Success, snd (add_item_to_cart catalogue ''QB003'' 4 1 two_processors))"
    by code_simp
  from add_then_remove_restores_cart [OF h1 h2 h3 h4] h1 h2 h3 h4 show ?thesis
    by simp
qed

subsection \<open>Setting the quantity of a line\<close>

text \<open>
  Claim C6. \<open>update_item_quantity\<close> replaces the quantity of the line and reprices
  it, and removes the line when the quantity is not positive. The code does neither:
  its guard looks for the session key \<open>'order_code'\<close>, which nothing sets, so every
  call answers "No active cart session" and the cart stays as it was.
\<close>

theorem update_item_quantity_never_updates:
  "order_session two_processors \<noteq> None
   \<and> map item_product_code (cart_lines two_processors) = [''QB001'']
   \<and> map item_quantity (cart_lines two_processors) = [2]
   \<and> update_item_quantity catalogue ''QB001'' 5 two_processors = (NoActiveCart, two_processors)
   \<and> update_item_quantity catalogue ''QB001'' 0 two_processors = (NoActiveCart, two_processors)
   \<and> map item_quantity (cart_lines (snd (update_item_quantity catalogue ''QB001'' 5 two_processors))) = [2]"
  by code_simp

subsection \<open>Commands that resolve to nothing\<close>




subsection \<open>Adding after an order was placed\<close>

text \<open>
  Claim C7. After a successful finalize, an add command must not append to the
  completed cart. \<open>confirm_cart\<close> marks the cart \<open>completed\<close> and keeps its lines;
  the add branch of the chat then only sets the stage back to \<open>confirming\<close> and
  appends, and \<open>add_item_to_cart\<close> appends without looking at the stage. The new
  cart holds the lines of the order already placed, under its order id.
\<close>

theorem add_after_completed_appends:
  "fst (confirm_cart (\<lambda>p. p) sample_db 1 two_processors) = Success
   \<and> status (current_cart confirmed_session) = Completed
   \<and> order_id (current_cart confirmed_session) = Some 1
   \<and> map item_product_code (items (current_cart confirmed_session)) = [''QB001'']
   \<and> fst (chat_add (products confirmed_db) 1 (Some (1, ''ai memory card''))
             (current_cart confirmed_session)) = AddedToCart
   \<and> map item_product_code
        (items (snd (chat_add (products confirmed_db) 1 (Some (1, ''ai memory card''))
                       (current_cart confirmed_session)))) = [''QB001'', ''QB003'']
   \<and> status (snd (chat_add (products confirmed_db) 1 (Some (1, ''ai memory card''))
                     (current_cart confirmed_session))) = Confirming
   \<and> order_id (snd (chat_add (products confirmed_db) 1 (Some (1, ''ai memory card''))
                     (current_cart confirmed_session))) = Some 1
   \<and> fst (add_item_to_cart (products confirmed_db) ''QB003'' 1 1 confirmed_session) = Success
   \<and> map item_product_code
        (cart_lines (snd (add_item_to_cart (products confirmed_db) ''QB003'' 1 1 confirmed_session)))
       = [''QB001'', ''QB003'']
   \<and> status (current_cart (snd (add_item_to_cart (products confirmed_db) ''QB003'' 1 1 confirmed_session)))
       = Completed"
  by code_simp

text \<open>The finalize branch of the chat does reset: a placed order leaves the fresh cart.\<close>

lemma chat_finalize_resets:
  "chat_finalize uaq db wid c = (OrderPlaced oid, db', c') \<Longrightarrow> c' = fresh_cart"
  by (auto simp: chat_finalize_def Let_def split: prod.splits option.splits)

subsection \<open>Finalizing a cart with a line out of stock\<close>

text \<open>
  Claim C2. A cart with a line whose quantity exceeds the stock must not produce an
  order. \<open>OrderService.create_order_from_cart\<close> drops that line and creates a
  confirmed order from the others, reserving their stock: 500 AI Memory Cards are asked
  for, 200 are in stock, and an order for the Quantum Processor alone is written.
\<close>

theorem order_service_creates_partial_order:
  "available_for_sale memory_card < 500
   \<and> fst (order_service_create_order_from_cart (\<lambda>p. p) sample_db
            [(''QB001'', 1), (''QB003'', 500)] 1) = Success
   \<and> map o_status (orders (snd (snd (order_service_create_order_from_cart (\<lambda>p. p) sample_db
            [(''QB001'', 1), (''QB003'', 500)] 1)))) = [Confirmed]
   \<and> map oi_product_code (order_items (snd (snd (order_service_create_order_from_cart (\<lambda>p. p)
            sample_db [(''QB001'', 1), (''QB003'', 500)] 1)))) = [''QB001'']
   \<and> map available_for_sale (products (snd (snd (order_service_create_order_from_cart (\<lambda>p. p)
            sample_db [(''QB001'', 1), (''QB003'', 500)] 1)))) = [99, 200]"
  by code_simp

text \<open>
  \<open>EnhancedOrderService.create_order_from_cart\<close>, the finalizer the chat uses, does
  abort: a line that is out of stock or unknown leaves the database untouched.
\<close>

lemma check_availability_fails:
  assumes "(code, q) \<in> set cart_items"
    and "case get_product_by_code_and_warehouse ps code wid of
           None \<Rightarrow> True | Some p \<Rightarrow> available_for_sale p < q"
  shows "check_availability ps cart_items wid \<noteq> Success"
  using assms
  by (induction ps cart_items wid rule: check_availability.induct)
     (auto split: option.splits)

lemma enhanced_create_order_aborts:
  assumes "(code, q) \<in> set cart_items"
    and "case get_product_by_code_and_warehouse (products db) code wid of
           None \<Rightarrow> True | Some p \<Rightarrow> available_for_sale p < q"
  shows "\<exists>failure. failure \<noteq> Success
           \<and> enhanced_create_order_from_cart uaq db cart_items wid = (failure, None, db)"
proof -
  from assms have ne: "cart_items \<noteq> []" by auto
  from check_availability_fails [OF assms]
  have "check_availability (products db) cart_items wid \<noteq> Success" .
  with ne show ?thesis
    by (cases "check_availability (products db) cart_items wid")
       (simp_all add: enhanced_create_order_from_cart_def)
qed

subsection \<open>What a successful finalize charges\<close>

text \<open>
  Claim C4, as stated, fails. The chat cart with three Quantum Processors, added as
  two and then one, shows a line total of 7050; the order the chat's finalizer writes
  charges 4700, the price recomputed for three units. \<open>OrderService\<close> charges the
  base price, 2500 a unit, where the cart shows 2350.
\<close>

theorem finalize_charges_counterexample:
  "fst (chat_finalize (\<lambda>p. p) sample_db 1 three_processors) = OrderPlaced 1
   \<and> map item_final_price (items three_processors) = [2350]
   \<and> map item_total (items three_processors) = [7050]
   \<and> map oi_unit_price (order_items (fst (snd (chat_finalize (\<lambda>p. p) sample_db 1 three_processors))))
       = [2350]
   \<and> map oi_total_price (order_items (fst (snd (chat_finalize (\<lambda>p. p) sample_db 1 three_processors))))
       = [4700]
   \<and> map oi_total_price (order_items (fst (snd (chat_finalize (\<lambda>p. p) sample_db 1 three_processors))))
       \<noteq> map item_total (items three_processors)
   \<and> fst (order_service_create_order_from_cart (\<lambda>p. p) sample_db [(''QB001'', 3)] 1) = Success
   \<and> map oi_unit_price (order_items (snd (snd (order_service_create_order_from_cart (\<lambda>p. p)
            sample_db [(''QB001'', 3)] 1)))) = [2500]
   \<and> map oi_total_price (order_items (snd (snd (order_service_create_order_from_cart (\<lambda>p. p)
            sample_db [(''QB001'', 3)] 1)))) = [7500]"
  by code_simp

lemma same_offer_refl: "same_offer a a"
  by (simp add: same_offer_def)

lemma same_offer_trans: "same_offer a b \<Longrightarrow> same_offer b c \<Longrightarrow> same_offer a c"
  by (simp add: same_offer_def)

lemma same_catalogue_refl: "list_all2 same_offer ps ps"
  by (simp add: list_all2_refl same_offer_refl)

lemma same_catalogue_trans:
  "list_all2 same_offer ps qs \<Longrightarrow> list_all2 same_offer qs rs \<Longrightarrow> list_all2 same_offer ps rs"
  using list_all2_trans [of same_offer same_offer same_offer ps qs rs] same_offer_trans
  by blast

lemma same_catalogue_by_code:
  "list_all2 same_offer ps qs \<Longrightarrow>
   rel_option same_offer (get_product_by_code ps code) (get_product_by_code qs code)"
  unfolding get_product_by_code_def
  by (induction rule: list_all2_induct) (auto simp: same_offer_def)

lemma same_catalogue_by_id:
  "list_all2 same_offer ps qs \<Longrightarrow> rel_option same_offer (query_get ps i) (query_get qs i)"
  unfolding query_get_def
  by (induction rule: list_all2_induct) (auto simp: same_offer_def)

lemma same_offer_pricing: "same_offer a b \<Longrightarrow> pricing_of_row a q = pricing_of_row b q"
  by (simp add: same_offer_def pricing_of_row_def pricing_fallback_def Let_def)

lemma same_catalogue_pricing:
  assumes "list_all2 same_offer ps qs"
  shows "get_product_pricing ps i q = get_product_pricing qs i q"
  using same_catalogue_by_id [OF assms, of i]
  by (auto simp: get_product_pricing_def option_rel_Some1 option_rel_Some2
      dest: same_offer_pricing split: option.splits)

lemma same_catalogue_priced_line:
  assumes "list_all2 same_offer ps qs"
  shows "priced_line ps oid line = priced_line qs oid line"
  using same_catalogue_by_code [OF assms, of "fst line"] same_catalogue_pricing [OF assms]
  by (auto simp: priced_line_def same_offer_def option_rel_Some1 option_rel_Some2
      split: option.splits)

lemma update_first_related:
  "(\<And>x. R x x) \<Longrightarrow> (\<And>x. R x (f x)) \<Longrightarrow> list_all2 R xs (update_first P f xs)"
  by (induction xs) (simp_all add: list_all2_refl)

lemma decrement_stock_same_catalogue:
  assumes "keeps_offer uaq"
  shows "list_all2 same_offer ps (decrement_stock uaq line ps)"
proof -
  have step: "same_offer r (uaq (r\<lparr>available_for_sale := available_for_sale r - snd line\<rparr>))" for r
  proof -
    have "same_offer r (r\<lparr>available_for_sale := available_for_sale r - snd line\<rparr>)"
      by (simp add: same_offer_def)
    moreover from assms
    have "same_offer (r\<lparr>available_for_sale := available_for_sale r - snd line\<rparr>)
            (uaq (r\<lparr>available_for_sale := available_for_sale r - snd line\<rparr>))"
      by (simp add: keeps_offer_def)
    ultimately show ?thesis by (rule same_offer_trans)
  qed
  show ?thesis
    by (auto simp: decrement_stock_def same_catalogue_refl split: option.splits
        intro!: update_first_related same_offer_refl step)
qed

lemma add_priced_items_lines:
  assumes "keeps_offer uaq"
  shows "list_all2 same_offer ps0 (products db1) \<Longrightarrow>
         order_items (snd (add_priced_items uaq oid lines (t, db1)))
           = order_items db1 @ concat (map (priced_line ps0 oid) lines)"
proof (induction lines arbitrary: t db1)
  case Nil
  then show ?case by simp
next
  case (Cons line rest)
  obtain code q where line: "line = (code, q)" by (cases line)
  have here: "priced_line ps0 oid line = priced_line (products db1) oid line"
    using Cons.prems by (rule same_catalogue_priced_line)
  show ?case
  proof (cases "get_product_by_code (products db1) code")
    case None
    with Cons line here show ?thesis by (simp add: priced_line_def)
  next
    case (Some p)
    define db2 where "db2 = db1\<lparr>order_items := order_items db1 @ priced_line (products db1) oid line,
                                products := decrement_stock uaq (code, q) (products db1)\<rparr>"
    have rel: "list_all2 same_offer ps0 (products db2)"
      using Cons.prems decrement_stock_same_catalogue [OF assms]
      by (auto simp: db2_def intro: same_catalogue_trans)
    have "add_priced_items uaq oid (line # rest) (t, db1)
            = add_priced_items uaq oid rest
                (t + total_amount (get_product_pricing (products db1) (prod_id p) q), db2)"
      using Some line
      by (simp add: Let_def add_order_item_def update_product_quantities_def db2_def priced_line_def)
    with Cons.IH [OF rel] here show ?thesis
      by (simp add: db2_def)
  qed
qed

lemma enhanced_create_order_lines:
  assumes "keeps_offer uaq"
    and "enhanced_create_order_from_cart uaq db cart_items wid = (Success, Some oid, db')"
  shows "order_items db' = order_items db @ concat (map (priced_line (products db) oid) cart_items)"
proof -
  from assms(2) have ok: "check_availability (products db) cart_items wid = Success"
    and ne: "cart_items \<noteq> []"
    by (auto simp: enhanced_create_order_from_cart_def split: if_splits outcome.splits)
  define db1 where "db1 = snd (create_order db)"
  have p1: "products db1 = products db" and i1: "order_items db1 = order_items db"
    by (simp_all add: db1_def create_order_def Let_def)
  have oid1: "o_id (fst (create_order db)) = Suc (length (orders db))"
    by (simp add: create_order_def Let_def)
  from assms(2) ok ne have oid: "oid = Suc (length (orders db))"
    and db': "db' = confirm_order oid
                 (fst (add_priced_items uaq oid cart_items (0, db1)))
                 (snd (add_priced_items uaq oid cart_items (0, db1)))"
    by (auto simp: enhanced_create_order_from_cart_def db1_def create_order_def Let_def
        split: prod.splits)
  have "list_all2 same_offer (products db) (products db1)"
    by (simp add: p1 same_catalogue_refl)
  from add_priced_items_lines [OF assms(1) this, of oid cart_items 0]
  show ?thesis by (simp add: db' confirm_order_def i1)
qed

text \<open>
  Claim C4, amended. When the chat's finalize succeeds, the lines of the order are the
  cart's lines (code and quantity) priced again by \<open>get_product_pricing\<close> against
  the catalogue as it is at finalize time: each line's unit price and total are the
  \<open>final_price\<close> and \<open>total_amount\<close> computed then for the line's whole quantity.
  The prices stored in the cart are not read.
\<close>

theorem finalize_charges_recomputed_prices:
  assumes "keeps_offer uaq"
    and "chat_finalize uaq db wid c = (OrderPlaced oid, db', c')"
  shows "order_items db' = order_items db
           @ concat (map (\<lambda>it. priced_line (products db) oid (item_product_code it, item_quantity it))
                       (items c))"
proof -
  from assms(2) have "enhanced_create_order_from_cart uaq db
      (map (\<lambda>it. (item_product_code it, item_quantity it)) (items c)) wid = (Success, Some oid, db')"
    by (auto simp: chat_finalize_def Let_def enhanced_create_order_from_cart_def
        split: prod.splits option.splits if_splits outcome.splits)
  from enhanced_create_order_lines [OF assms(1) this] show ?thesis
    by (simp add: comp_def)
qed

theorem finalize_charges_recomputed_prices_witness:
  "keeps_offer (\<lambda>p. p)
   \<and> chat_finalize (\<lambda>p. p) sample_db 1 three_processors
       = (OrderPlaced 1, fst (snd (chat_finalize (\<lambda>p. p) sample_db 1 three_processors)),
          snd (snd (chat_finalize (\<lambda>p. p) sample_db 1 three_processors)))
   \<and> order_items (fst (snd (chat_finalize (\<lambda>p. p) sample_db 1 three_processors)))
       = order_items sample_db
           @ concat (map (\<lambda>it. priced_line (products sample_db) 1
                                 (item_product_code it, item_quantity it))
                       (items three_processors))"
proof -
  have h1: "keeps_offer (\<lambda>p. p)"
    by (simp add: keeps_offer_def same_offer_def)
  have h2: "chat_finalize (\<lambda>p. p) sample_db 1 three_processors
       = (OrderPlaced 1, fst (snd (chat_finalize (\<lambda>p. p) sample_db 1 three_processors)),
          snd (snd (chat_finalize (\<lambda>p. p) sample_db 1 three_processors)))"
    by code_simp
  from finalize_charges_recomputed_prices [OF h1 h2] h1 h2 show ?thesis
    by simp
qed

text \<open>\<open>OrderService\<close> charges each validated line the base price of the product.\<close>

lemma order_service_lines:
  "order_items (snd (add_validated_items uaq oid vs (t, db)))
     = order_items db
         @ map (\<lambda>v. \<lparr>oi_order_id = oid, oi_product_id = v_product_id v,
                       oi_product_code = v_product_code v, oi_quantity = v_quantity v,
                       oi_unit_price = v_unit_price v,
                       oi_total_price = of_int (v_quantity v) * v_unit_price v\<rparr>) vs"
  by (induction vs arbitrary: t db)
     (simp_all add: Let_def add_order_item_def update_product_quantities_def)

subsection \<open>The bulk stock decrement\<close>







end
